theory Spec2Isabelle
  imports Complex_Main
begin

section \<open>Data model\<close>

text \<open>
  The repository holds two versions of one Go program: \<^verbatim>\<open>src/main.go\<close>, which skips
  sleep metrics, and \<^verbatim>\<open>src/unnamed/part_000\<close>, which parses the date fields of sleep
  records. Both declare the same function names, so the definitions below carry the suffix
  \<open>_main\<close> for the first file and \<open>_part0\<close> for the second.
\<close>

text \<open>
  A value that \<^verbatim>\<open>json.Unmarshal\<close> stores in an \<^verbatim>\<open>interface{}\<close>: nil, bool,
  float64, string, a slice or a map. The transcoder never computes with a number, it only
  passes it on, so the float64 is carried as the real number it denotes.
\<close>

datatype json =
    JNull
  | JBool bool
  | JNumber real
  | JString string
  | JArray "json list"
  | JObject "(string \<times> json) list"

text \<open>
  A Go \<^verbatim>\<open>map[string]interface{}\<close> record, given as the list of its entries in the order
  in which the \<^verbatim>\<open>range\<close> loop of the transcoder visits them (Go leaves that order
  open). \<^verbatim>\<open>datum["date"]\<close> is \<open>map_of datum ''date''\<close>.
\<close>

type_synonym datum = "(string \<times> json) list"

record healthDataMetric =
  Name :: string
  Data :: "datum list"
  Units :: string

text \<open>
  The payload, with its anonymous struct \<^verbatim>\<open>Data\<close> flattened:
  \<^verbatim>\<open>payload.Data.Metrics\<close> is \<open>Metrics payload\<close>. Both fields are slices of pointers; a
  JSON \<^verbatim>\<open>null\<close> in the array decodes to a nil pointer, which is \<open>None\<close> here. A workout
  is an empty struct.
\<close>

record healthDataPayload =
  Workouts :: "unit option list"
  Metrics :: "healthDataMetric option list"

text \<open>Go error values: \<^verbatim>\<open>errors.New\<close>, \<^verbatim>\<open>*time.ParseError\<close> (with the rejected
  value), and the errors of the collaborators (write API, body reader, JSON decoder).\<close>

datatype error =
    ErrorString string
  | ParseError string
  | LibError string

text \<open>A Go call either returns or panics.\<close>

datatype 'a go_result = Return 'a | Panic string

text \<open>
  A \<^verbatim>\<open>time.Time\<close> as \<^verbatim>\<open>time.Parse\<close> builds it: the civil date and clock reading
  together with the zone offset (seconds east of UTC) they are read in.
\<close>

record time =
  year :: nat
  month :: nat
  day :: nat
  hour :: nat
  minute :: nat
  second :: nat
  nanosecond :: nat
  zoneOffset :: int

text \<open>What the program hands to \<^verbatim>\<open>AddField\<close>: a decoded JSON value as it is, or a
  \<^verbatim>\<open>time.Time\<close>.\<close>

datatype fieldValue = Raw json | Timestamp time

text \<open>
  An influxdb2 point under construction: \<^verbatim>\<open>NewPointWithMeasurement\<close> leaves the time
  unset, \<^verbatim>\<open>SetTime\<close> sets it, \<^verbatim>\<open>AddTag\<close> and \<^verbatim>\<open>AddField\<close> append.
\<close>

record point =
  measurement :: string
  timestamp :: "time option"
  pointTags :: "(string \<times> string) list"
  pointFields :: "(string \<times> fieldValue) list"

definition NewPointWithMeasurement :: "string \<Rightarrow> point" where
  "NewPointWithMeasurement m = \<lparr>measurement = m, timestamp = None, pointTags = [], pointFields = []\<rparr>"

definition SetTime :: "time \<Rightarrow> point \<Rightarrow> point" where
  "SetTime t p = p\<lparr>timestamp := Some t\<rparr>"

definition AddTag :: "string \<Rightarrow> string \<Rightarrow> point \<Rightarrow> point" where
  "AddTag k v p = p\<lparr>pointTags := pointTags p @ [(k, v)]\<rparr>"

definition AddField :: "string \<Rightarrow> fieldValue \<Rightarrow> point \<Rightarrow> point" where
  "AddField k v p = p\<lparr>pointFields := pointFields p @ [(k, v)]\<rparr>"

text \<open>
  What a request leaves behind: the points handed to \<^verbatim>\<open>WritePoint\<close> in call order,
  whether the request body was read, and the contents passed to
  \<^verbatim>\<open>ioutil.WriteFile("payload.json", ...)\<close>. Log lines go to the standard error stream
  and decide nothing; they are left out (\<^verbatim>\<open>log.Fatal\<close>, which ends the process, is in
  the model of \<^verbatim>\<open>main\<close>).
\<close>

record world =
  submitted :: "point list"
  bodyRead :: bool
  payloadFile :: "string list"

text \<open>
  What the code reads but does not define: the global \<^verbatim>\<open>authenticationToken\<close>, the
  global \<^verbatim>\<open>influxWriteAPI\<close> (the answer of the blocking \<^verbatim>\<open>WritePoint\<close> may depend
  on everything submitted before, so every sequence of answers is covered),
  \<^verbatim>\<open>time.Parse\<close> at the fixed layout \<^verbatim>\<open>2006-01-02 15:04:05 -0700\<close>, and
  \<^verbatim>\<open>json.Unmarshal\<close> into a \<^verbatim>\<open>healthDataPayload\<close>.
\<close>

record env =
  authenticationToken :: string
  influxWriteAPI :: "point list \<Rightarrow> point \<Rightarrow> error option"
  timeParse :: "string \<Rightarrow> error + time"
  jsonUnmarshal :: "string \<Rightarrow> error + healthDataPayload"

definition WritePoint :: "env \<Rightarrow> point \<Rightarrow> world \<Rightarrow> error option \<times> world" where
  "WritePoint e p w = (influxWriteAPI e (submitted w) p, w\<lparr>submitted := submitted w @ [p]\<rparr>)"

section \<open>The transcoder of \<^verbatim>\<open>src/main.go\<close>\<close>

text \<open>The loop \<^verbatim>\<open>for k, v := range datum\<close> of \<^verbatim>\<open>parseMetricDataPoint\<close>.\<close>

fun addFields_main :: "datum \<Rightarrow> point \<Rightarrow> point" where
  "addFields_main [] p = p"
| "addFields_main ((k, v) # kvs) p =
     (if k = ''date'' then addFields_main kvs p
      else addFields_main kvs (AddField k (Raw v) p))"

definition parseMetricDataPoint_main ::
  "env \<Rightarrow> healthDataMetric \<Rightarrow> datum \<Rightarrow> world \<Rightarrow> error option \<times> world" where
  "parseMetricDataPoint_main e metric datum w =
     (case map_of datum ''date'' of
        None \<Rightarrow> (None, w)
      | Some date \<Rightarrow>
          (case date of
             JString dateStr \<Rightarrow>
               (case timeParse e dateStr of
                  Inl err \<Rightarrow> (Some err, w)
                | Inr dateTime \<Rightarrow>
                    WritePoint e
                      (addFields_main datum
                         (AddTag ''units'' (Units metric)
                            (SetTime dateTime
                               (NewPointWithMeasurement (''apple_health_'' @ Name metric)))))
                      w)
           | _ \<Rightarrow> (Some (ErrorString ''date must be string''), w)))"

text \<open>The loop \<^verbatim>\<open>for _, datum := range metric.Data\<close> of \<^verbatim>\<open>incomingMetric\<close>.\<close>

fun rangeData_main ::
  "env \<Rightarrow> healthDataMetric \<Rightarrow> datum list \<Rightarrow> world \<Rightarrow> error option \<times> world" where
  "rangeData_main e metric [] w = (None, w)"
| "rangeData_main e metric (d # ds) w =
     (case parseMetricDataPoint_main e metric d w of
        (Some err, w') \<Rightarrow> (Some err, w')
      | (None, w') \<Rightarrow> rangeData_main e metric ds w')"

text \<open>\<^verbatim>\<open>metric.Data\<close> on a nil pointer panics.\<close>

definition incomingMetric_main ::
  "env \<Rightarrow> healthDataMetric option \<Rightarrow> world \<Rightarrow> error option go_result \<times> world" where
  "incomingMetric_main e mp w =
     (case mp of
        None \<Rightarrow> (Panic ''nil pointer dereference'', w)
      | Some metric \<Rightarrow>
          if length (Data metric) = 0 then (Return None, w)
          else if Name metric = ''sleep_analysis'' then (Return None, w)
          else (case rangeData_main e metric (Data metric) w of
                  (r, w') \<Rightarrow> (Return r, w')))"

section \<open>The transcoder of \<^verbatim>\<open>src/unnamed/part_000\<close>\<close>

definition sleepAnalysisDateFields :: "string list" where
  "sleepAnalysisDateFields = [''inBedEnd'', ''inBedStart'', ''sleepStart'', ''sleepEnd'']"

definition parseMetricDate :: "env \<Rightarrow> json \<Rightarrow> error + time" where
  "parseMetricDate e date =
     (case date of
        JString dateStr \<Rightarrow>
          (case timeParse e dateStr of
             Inl err \<Rightarrow> Inl err
           | Inr dateTime \<Rightarrow> Inr dateTime)
      | _ \<Rightarrow> Inl (ErrorString ''date must be string''))"

text \<open>
  The inner loop \<^verbatim>\<open>for _, sleepField := range sleepAnalysisDateFields\<close>: it returns the
  error of \<^verbatim>\<open>parseMetricDate\<close>, or the flag \<^verbatim>\<open>isDateField\<close> and the point.
\<close>

fun sleepFieldLoop ::
  "env \<Rightarrow> string \<Rightarrow> json \<Rightarrow> string list \<Rightarrow> point \<Rightarrow> error + (bool \<times> point)" where
  "sleepFieldLoop e k v [] p = Inr (False, p)"
| "sleepFieldLoop e k v (sleepField # rest) p =
     (if k = sleepField then
        (case parseMetricDate e v of
           Inl err \<Rightarrow> Inl err
         | Inr vdate \<Rightarrow> Inr (True, AddField k (Timestamp vdate) p))
      else sleepFieldLoop e k v rest p)"

text \<open>The loop \<^verbatim>\<open>for k, v := range datum\<close>, which an error of a sleep date field leaves.\<close>

fun addFields_part0 :: "env \<Rightarrow> healthDataMetric \<Rightarrow> datum \<Rightarrow> point \<Rightarrow> error + point" where
  "addFields_part0 e metric [] p = Inr p"
| "addFields_part0 e metric ((k, v) # kvs) p =
     (if k = ''date'' then addFields_part0 e metric kvs p
      else if Name metric = ''sleep_analysis'' then
        (case sleepFieldLoop e k v sleepAnalysisDateFields p of
           Inl err \<Rightarrow> Inl err
         | Inr (isDateField, p') \<Rightarrow>
             addFields_part0 e metric kvs
               (if \<not> isDateField then AddField k (Raw v) p' else p'))
      else addFields_part0 e metric kvs (AddField k (Raw v) p))"

definition parseMetricDataPoint_part0 ::
  "env \<Rightarrow> healthDataMetric \<Rightarrow> datum \<Rightarrow> world \<Rightarrow> error option \<times> world" where
  "parseMetricDataPoint_part0 e metric datum w =
     (case map_of datum ''date'' of
        None \<Rightarrow> (None, w)
      | Some date \<Rightarrow>
          (case parseMetricDate e date of
             Inl err \<Rightarrow> (Some err, w)
           | Inr dateTime \<Rightarrow>
               (case addFields_part0 e metric datum
                       (AddTag ''units'' (Units metric)
                          (SetTime dateTime
                             (NewPointWithMeasurement (''apple_health_'' @ Name metric)))) of
                  Inl err \<Rightarrow> (Some err, w)
                | Inr p \<Rightarrow> WritePoint e p w)))"

fun rangeData_part0 ::
  "env \<Rightarrow> healthDataMetric \<Rightarrow> datum list \<Rightarrow> world \<Rightarrow> error option \<times> world" where
  "rangeData_part0 e metric [] w = (None, w)"
| "rangeData_part0 e metric (d # ds) w =
     (case parseMetricDataPoint_part0 e metric d w of
        (Some err, w') \<Rightarrow> (Some err, w')
      | (None, w') \<Rightarrow> rangeData_part0 e metric ds w')"

definition incomingMetric_part0 ::
  "env \<Rightarrow> healthDataMetric option \<Rightarrow> world \<Rightarrow> error option go_result \<times> world" where
  "incomingMetric_part0 e mp w =
     (case mp of
        None \<Rightarrow> (Panic ''nil pointer dereference'', w)
      | Some metric \<Rightarrow>
          if length (Data metric) = 0 then (Return None, w)
          else (case rangeData_part0 e metric (Data metric) w of
                  (r, w') \<Rightarrow> (Return r, w')))"

section \<open>The ingress handler (the same text in both files)\<close>

text \<open>
  The request as the handler reads it: the method, the headers (the first value of each),
  and what \<^verbatim>\<open>ioutil.ReadAll(r.Body)\<close> returns once it is called.
  \<^verbatim>\<open>Header.Get\<close> gives the empty string for a header that is absent.
\<close>

record request =
  Method :: string
  Header :: "string \<rightharpoonup> string"
  Body :: "error + string"

definition HeaderGet :: "request \<Rightarrow> string \<Rightarrow> string" where
  "HeaderGet r k = (case Header r k of None \<Rightarrow> [] | Some v \<Rightarrow> v)"

text \<open>
  The \<^verbatim>\<open>http.ResponseWriter\<close>: the status passed to \<^verbatim>\<open>WriteHeader\<close> (the first call
  counts) and the bytes written. A handler that returns without either answers 200 with an
  empty body.
\<close>

record responseWriter =
  wroteHeader :: "nat option"
  written :: string

definition newResponseWriter :: responseWriter where
  "newResponseWriter = \<lparr>wroteHeader = None, written = []\<rparr>"

definition WriteHeader :: "nat \<Rightarrow> responseWriter \<Rightarrow> responseWriter" where
  "WriteHeader code rw =
     (case wroteHeader rw of None \<Rightarrow> rw\<lparr>wroteHeader := Some code\<rparr> | Some _ \<Rightarrow> rw)"

definition Write :: "string \<Rightarrow> responseWriter \<Rightarrow> responseWriter" where
  "Write b rw =
     rw\<lparr>wroteHeader := (case wroteHeader rw of None \<Rightarrow> Some 200 | Some c \<Rightarrow> Some c),
        written := written rw @ b\<rparr>"


text \<open>
  The loop \<^verbatim>\<open>for _, metric := range payload.Data.Metrics\<close> with its flag
  \<^verbatim>\<open>hasErrors\<close>. The first argument is the file's own \<^verbatim>\<open>incomingMetric\<close>.
\<close>

fun rangeMetrics ::
  "(env \<Rightarrow> healthDataMetric option \<Rightarrow> world \<Rightarrow> error option go_result \<times> world) \<Rightarrow>
   env \<Rightarrow> healthDataMetric option list \<Rightarrow> bool \<Rightarrow> world \<Rightarrow> bool go_result \<times> world" where
  "rangeMetrics incomingMetric e [] hasErrors w = (Return hasErrors, w)"
| "rangeMetrics incomingMetric e (metric # ms) hasErrors w =
     (case incomingMetric e metric w of
        (Panic s, w') \<Rightarrow> (Panic s, w')
      | (Return (Some err), w') \<Rightarrow> rangeMetrics incomingMetric e ms True w'
      | (Return None, w') \<Rightarrow> rangeMetrics incomingMetric e ms hasErrors w')"

definition handleDataPayload ::
  "(env \<Rightarrow> healthDataMetric option \<Rightarrow> world \<Rightarrow> error option go_result \<times> world) \<Rightarrow>
   env \<Rightarrow> request \<Rightarrow> responseWriter \<Rightarrow> world \<Rightarrow> unit go_result \<times> responseWriter \<times> world" where
  "handleDataPayload incomingMetric e r rw w =
     (if Method r \<noteq> ''POST'' then (Return (), WriteHeader 405 rw, w)
      else if HeaderGet r ''Authorization'' \<noteq> authenticationToken e then
        (Return (), Write ''missing or invalid Authorization header'' (WriteHeader 403 rw), w)
      else
        (case Body r of
           Inl err \<Rightarrow> (Return (), WriteHeader 500 rw, w\<lparr>bodyRead := True\<rparr>)
         | Inr bdbs \<Rightarrow>
             (case jsonUnmarshal e bdbs of
                Inl err \<Rightarrow> (Return (), WriteHeader 400 rw, w\<lparr>bodyRead := True\<rparr>)
              | Inr payload \<Rightarrow>
                  (case rangeMetrics incomingMetric e (Metrics payload) False
                          (w\<lparr>bodyRead := True, payloadFile := payloadFile w @ [bdbs]\<rparr>) of
                     (Panic s, w') \<Rightarrow> (Panic s, rw, w')
                   | (Return hasErrors, w') \<Rightarrow>
                       if hasErrors then (Return (), WriteHeader 500 rw, w')
                       else (Return (), rw, w')))))"

definition handleDataPayload_main ::
  "env \<Rightarrow> request \<Rightarrow> responseWriter \<Rightarrow> world \<Rightarrow> unit go_result \<times> responseWriter \<times> world" where
  "handleDataPayload_main = handleDataPayload incomingMetric_main"

definition handleDataPayload_part0 ::
  "env \<Rightarrow> request \<Rightarrow> responseWriter \<Rightarrow> world \<Rightarrow> unit go_result \<times> responseWriter \<times> world" where
  "handleDataPayload_part0 = handleDataPayload incomingMetric_part0"

section \<open>Startup\<close>

text \<open>
  The command line after \<^verbatim>\<open>flag.Parse\<close>: each flag is either supplied with a value or
  not supplied, and \<^verbatim>\<open>flag.String\<close> then yields its default.
\<close>

record flags =
  flag_influxdb_host :: "string option"
  flag_influxdb_token :: "string option"
  flag_influxdb_org :: "string option"
  flag_influxdb_bucket :: "string option"
  flag_listen :: "string option"
  flag_auth_token :: "string option"

definition flagString :: "string option \<Rightarrow> string \<Rightarrow> string" where
  "flagString supplied dflt = (case supplied of None \<Rightarrow> dflt | Some v \<Rightarrow> v)"

text \<open>
  What \<^verbatim>\<open>main\<close> has set up when it reaches \<^verbatim>\<open>http.ListenAndServe\<close>: the arguments
  of \<^verbatim>\<open>NewClient\<close> and \<^verbatim>\<open>WriteAPIBlocking\<close>, the listen address and the global
  \<^verbatim>\<open>authenticationToken\<close>. \<^verbatim>\<open>log.Fatal\<close> ends the process before that.
\<close>

record server =
  clientServerURL :: string
  clientAuthToken :: string
  writeOrg :: string
  writeBucket :: string
  listenAddr :: string
  sharedSecret :: string

datatype startup = Fatal string | ListenAndServe server

definition main_main :: "flags \<Rightarrow> startup" where
  "main_main fl =
     (let influxdbFlag = flagString (flag_influxdb_host fl) ''localhost:8086'';
          influxToken = flagString (flag_influxdb_token fl) [];
          influxOrg = flagString (flag_influxdb_org fl) [];
          influxBucket = flagString (flag_influxdb_bucket fl) [];
          listenAddr = flagString (flag_listen fl) ''0.0.0.0:8082'';
          authToken = flagString (flag_auth_token fl) ''supersecret''
      in if influxToken = [] then Fatal ''You must supply an InfluxDB 2 token''
         else if influxOrg = [] then Fatal ''You must supply an InfluxDB 2 organization''
         else ListenAndServe
                \<lparr>clientServerURL = ''http://'' @ influxdbFlag, clientAuthToken = influxToken,
                 writeOrg = influxOrg, writeBucket = influxBucket,
                 listenAddr = listenAddr, sharedSecret = authToken\<rparr>)"

definition main_part0 :: "flags \<Rightarrow> startup" where
  "main_part0 fl =
     (let influxdbFlag = flagString (flag_influxdb_host fl) ''localhost:8086'';
          influxToken = flagString (flag_influxdb_token fl) [];
          influxOrg = flagString (flag_influxdb_org fl) [];
          influxBucket = flagString (flag_influxdb_bucket fl) [];
          listenAddr = flagString (flag_listen fl) ''0.0.0.0:8082'';
          authToken = flagString (flag_auth_token fl) ''supersecret''
      in if influxToken = [] then Fatal ''You must supply an InfluxDB 2 token''
         else if influxOrg = [] then Fatal ''You must supply an InfluxDB 2 organization''
         else ListenAndServe
                \<lparr>clientServerURL = influxdbFlag, clientAuthToken = influxToken,
                 writeOrg = influxOrg, writeBucket = influxBucket,
                 listenAddr = listenAddr, sharedSecret = authToken\<rparr>)"

section \<open>The date layout\<close>

text \<open>
  Modelled from the spec: Go's \<^verbatim>\<open>time.Parse\<close> belongs to the standard library, not to
  the repository. The spec gives the layout \<^verbatim>\<open>2006-01-02 15:04:05 -0700\<close> as: 4-digit
  year, 2-digit month and day, 24h time with seconds, numeric UTC offset with sign and 4
  digits, space-separated. The three definitions that follow are the digits and the
  calendar this reading needs.
\<close>

definition isDigit :: "char \<Rightarrow> bool" where
  "isDigit c = (c \<in> set ''0123456789'')"

definition digitsVal :: "string \<Rightarrow> nat" where
  "digitsVal ds = foldl (\<lambda>n c. 10 * n + (of_char c - 48)) 0 ds"

definition daysIn :: "nat \<Rightarrow> nat \<Rightarrow> nat" where
  "daysIn m y =
     (if m = 2 then (if y mod 4 = 0 \<and> (y mod 100 \<noteq> 0 \<or> y mod 400 = 0) then 29 else 28)
      else if m \<in> {4, 6, 9, 11} then 30 else 31)"

text \<open>
  Modelled from the spec: the parser of the layout, as the spec describes it (see above).
  It accepts the strings of exactly that shape that name a date of the calendar and a time
  of the day, and reads no fraction of a second. The theorems on the transcoder hold for
  every parser; this one serves where a concrete date string is parsed.
\<close>

definition timeParseLayout :: "string \<Rightarrow> error + time" where
  "timeParseLayout s =
     (if length s = 25
         \<and> list_all isDigit (take 4 s) \<and> s ! 4 = CHR ''-''
         \<and> list_all isDigit (take 2 (drop 5 s)) \<and> s ! 7 = CHR ''-''
         \<and> list_all isDigit (take 2 (drop 8 s)) \<and> s ! 10 = CHR '' ''
         \<and> list_all isDigit (take 2 (drop 11 s)) \<and> s ! 13 = CHR '':''
         \<and> list_all isDigit (take 2 (drop 14 s)) \<and> s ! 16 = CHR '':''
         \<and> list_all isDigit (take 2 (drop 17 s)) \<and> s ! 19 = CHR '' ''
         \<and> (s ! 20 = CHR ''+'' \<or> s ! 20 = CHR ''-'')
         \<and> list_all isDigit (drop 21 s)
      then
        (let y = digitsVal (take 4 s);
             mo = digitsVal (take 2 (drop 5 s));
             d = digitsVal (take 2 (drop 8 s));
             h = digitsVal (take 2 (drop 11 s));
             mi = digitsVal (take 2 (drop 14 s));
             sec = digitsVal (take 2 (drop 17 s));
             off = (int (digitsVal (take 2 (drop 21 s))) * 60
                    + int (digitsVal (drop 23 s))) * 60
         in if 1 \<le> mo \<and> mo \<le> 12 \<and> 1 \<le> d \<and> d \<le> daysIn mo y
               \<and> h < 24 \<and> mi < 60 \<and> sec < 60
            then Inr \<lparr>year = y, month = mo, day = d, hour = h, minute = mi, second = sec, nanosecond = 0,
                      zoneOffset = (if s ! 20 = CHR ''-'' then - off else off)\<rparr>
            else Inl (ParseError s))
      else Inl (ParseError s))"

section \<open>Notions used in the statements\<close>

text \<open>The points handed to the write API between two states of the world.\<close>

definition emitted :: "world \<Rightarrow> world \<Rightarrow> point list" where
  "emitted w w' = drop (length (submitted w)) (submitted w')"

text \<open>The entries of a record other than its \<open>date\<close>, and their verbatim copies.\<close>

definition nonDate :: "datum \<Rightarrow> datum" where
  "nonDate datum = filter (\<lambda>(k, v). k \<noteq> ''date'') datum"

definition copiedFields :: "datum \<Rightarrow> (string \<times> fieldValue) list" where
  "copiedFields datum = map (\<lambda>(k, v). (k, Raw v)) (nonDate datum)"

text \<open>
  How a field of a point answers an entry of a sleep record: under the same key, a date
  field as the timestamp its value parses to, any other field as the raw value.
\<close>

definition sleepFieldTranscoded :: "env \<Rightarrow> string \<times> json \<Rightarrow> string \<times> fieldValue \<Rightarrow> bool" where
  "sleepFieldTranscoded e kv f =
     (fst f = fst kv \<and>
      (if fst kv \<in> set sleepAnalysisDateFields then
         (case parseMetricDate e (snd kv) of Inr t \<Rightarrow> snd f = Timestamp t | Inl _ \<Rightarrow> False)
       else snd f = Raw (snd kv)))"


text \<open>
  The invariant of an emitted point: the measurement name, the one timestamp parsed from
  the record's \<open>date\<close>, the single tag \<open>units\<close>, and no field named \<open>date\<close>.
\<close>

definition emittedPointInvariant :: "env \<Rightarrow> healthDataMetric \<Rightarrow> datum \<Rightarrow> point \<Rightarrow> bool" where
  "emittedPointInvariant e metric datum p =
     (measurement p = ''apple_health_'' @ Name metric
      \<and> (case map_of datum ''date'' of
           Some (JString s) \<Rightarrow>
             (case timeParse e s of Inr t \<Rightarrow> timestamp p = Some t | Inl _ \<Rightarrow> False)
         | _ \<Rightarrow> False)
      \<and> pointTags p = [(''units'', Units metric)]
      \<and> ''date'' \<notin> fst ` set (pointFields p))"

text \<open>
  The scheme of both loops over the records of a metric: run the step on each record in
  order and leave at the first error. It serves the proofs only.
\<close>

fun failFast ::
  "('a \<Rightarrow> world \<Rightarrow> error option \<times> world) \<Rightarrow> 'a list \<Rightarrow> world \<Rightarrow> error option \<times> world" where
  "failFast P [] w = (None, w)"
| "failFast P (d # ds) w =
     (case P d w of
        (Some err, w') \<Rightarrow> (Some err, w')
      | (None, w') \<Rightarrow> failFast P ds w')"

text \<open>
  The world after a step has run on every record of a list, whatever it returned, and the
  outcome of the step on record \<open>i\<close> once it has run on all the records before it.
\<close>

definition stateAfter ::
  "(datum \<Rightarrow> world \<Rightarrow> error option \<times> world) \<Rightarrow> datum list \<Rightarrow> world \<Rightarrow> world" where
  "stateAfter P ds w = foldl (\<lambda>w d. snd (P d w)) w ds"

definition recordOutcome ::
  "(datum \<Rightarrow> world \<Rightarrow> error option \<times> world) \<Rightarrow> datum list \<Rightarrow> world \<Rightarrow> nat \<Rightarrow>
   error option \<times> world" where
  "recordOutcome P ds w i = P (ds ! i) (stateAfter P (take i ds) w)"



definition refusesToStart :: "startup \<Rightarrow> bool" where
  "refusesToStart s = (case s of Fatal msg \<Rightarrow> True | ListenAndServe srv \<Rightarrow> False)"

section \<open>Example data\<close>

text \<open>The record of the spec's round trip, and the point it is to produce.\<close>

definition heartRateMetric :: healthDataMetric where
  "heartRateMetric =
     \<lparr>Name = ''heart_rate'',
      Data = [[(''date'', JString ''2024-01-01 08:00:00 +0000''), (''value'', JNumber 72)]],
      Units = ''count/min''\<rparr>"

definition heartRatePoint :: point where
  "heartRatePoint =
     \<lparr>measurement = ''apple_health_heart_rate'',
      timestamp = Some \<lparr>year = 2024, month = 1, day = 1, hour = 8, minute = 0, second = 0, nanosecond = 0,
                         zoneOffset = 0\<rparr>,
      pointTags = [(''units'', ''count/min'')],
      pointFields = [(''value'', Raw (JNumber 72))]\<rparr>"

text \<open>A metric whose second record has a number for its date.\<close>

definition stepMetric :: healthDataMetric where
  "stepMetric =
     \<lparr>Name = ''step_count'',
      Data = [[(''date'', JString ''2024-01-01 08:00:00 +0000''), (''qty'', JNumber 10)],
              [(''date'', JNumber 5), (''qty'', JNumber 20)],
              [(''date'', JString ''2024-01-02 07:00:00 +0100''), (''qty'', JNumber 30)]],
      Units = ''count''\<rparr>"

definition stepPoint :: point where
  "stepPoint =
     \<lparr>measurement = ''apple_health_step_count'',
      timestamp = Some \<lparr>year = 2024, month = 1, day = 1, hour = 8, minute = 0, second = 0, nanosecond = 0,
                         zoneOffset = 0\<rparr>,
      pointTags = [(''units'', ''count'')],
      pointFields = [(''qty'', Raw (JNumber 10))]\<rparr>"



definition examplePayload :: healthDataPayload where
  "examplePayload = \<lparr>Workouts = [], Metrics = [Some stepMetric, Some heartRateMetric]\<rparr>"


text \<open>
  An environment to run the definitions in: a write API that accepts every point, the
  parser of the layout, and a decoder that knows one body.
\<close>

definition exampleEnv :: env where
  "exampleEnv =
     \<lparr>authenticationToken = ''supersecret'',
      influxWriteAPI = (\<lambda>history p. None),
      timeParse = timeParseLayout,
      jsonUnmarshal = (\<lambda>bdbs. if bdbs = ''metrics'' then Inr examplePayload
                               else Inl (LibError ''invalid character''))\<rparr>"

definition emptyWorld :: world where
  "emptyWorld = \<lparr>submitted = [], bodyRead = False, payloadFile = []\<rparr>"

definition exampleFlags :: flags where
  "exampleFlags =
     \<lparr>flag_influxdb_host = None, flag_influxdb_token = Some ''t0ken'',
      flag_influxdb_org = Some ''home'', flag_influxdb_bucket = Some ''health'',
      flag_listen = None, flag_auth_token = None\<rparr>"

section \<open>Properties\<close>

subsection \<open>The field loops\<close>

lemma emitted_same [simp]: "emitted w w = []"
  by (simp add: emitted_def)

lemma emitted_append [simp]: "emitted w (w\<lparr>submitted := submitted w @ ps\<rparr>) = ps"
  by (simp add: emitted_def)

lemma date_notin_nonDate: "''date'' \<notin> fst ` set (nonDate d)"
  by (auto simp: nonDate_def)

lemma keys_copiedFields: "map fst (copiedFields d) = map fst (nonDate d)"
  by (induction d) (auto simp: copiedFields_def nonDate_def)

lemma date_notin_copiedFields: "''date'' \<notin> fst ` set (copiedFields d)"
  using date_notin_nonDate [of d] keys_copiedFields [of d] by (metis set_map)

lemma addFields_main_eq:
  "addFields_main d p = p\<lparr>pointFields := pointFields p @ copiedFields d\<rparr>"
  by (induction d p rule: addFields_main.induct)
     (simp_all add: copiedFields_def nonDate_def AddField_def)

lemma parseMetricDataPoint_main_cases:
  "parseMetricDataPoint_main e metric datum w =
     (case map_of datum ''date'' of
        None \<Rightarrow> (None, w)
      | Some (JString s) \<Rightarrow>
          (case timeParse e s of
             Inl err \<Rightarrow> (Some err, w)
           | Inr t \<Rightarrow>
               WritePoint e
                 \<lparr>measurement = ''apple_health_'' @ Name metric, timestamp = Some t,
                  pointTags = [(''units'', Units metric)], pointFields = copiedFields datum\<rparr> w)
      | Some _ \<Rightarrow> (Some (ErrorString ''date must be string''), w))"
  by (simp add: parseMetricDataPoint_main_def addFields_main_eq AddTag_def SetTime_def
        NewPointWithMeasurement_def split: option.splits json.splits sum.splits)

lemma parseMetricDate_Inr:
  "parseMetricDate e v = Inr t \<longleftrightarrow> (\<exists>s. v = JString s \<and> timeParse e s = Inr t)"
  by (auto simp: parseMetricDate_def split: json.splits sum.splits)

lemma sleepFieldLoop_eq:
  "sleepFieldLoop e k v fs p =
     (if k \<in> set fs then
        (case parseMetricDate e v of
           Inl err \<Rightarrow> Inl err
         | Inr t \<Rightarrow> Inr (True, AddField k (Timestamp t) p))
      else Inr (False, p))"
  by (induction fs) auto

lemma addFields_part0_other:
  "Name metric \<noteq> ''sleep_analysis'' \<Longrightarrow>
   addFields_part0 e metric d p = Inr (p\<lparr>pointFields := pointFields p @ copiedFields d\<rparr>)"
  by (induction d arbitrary: p) (auto simp: copiedFields_def nonDate_def AddField_def)

lemma addFields_part0_sleep:
  "Name metric = ''sleep_analysis'' \<Longrightarrow> addFields_part0 e metric d p = Inr p' \<Longrightarrow>
   \<exists>fs. p' = p\<lparr>pointFields := pointFields p @ fs\<rparr>
        \<and> list_all2 (sleepFieldTranscoded e) (nonDate d) fs"
proof (induction d arbitrary: p)
  case Nil
  then show ?case by (simp add: nonDate_def)
next
  case (Cons kv d)
  obtain k v where kv: "kv = (k, v)" by (cases kv)
  show ?case
  proof (cases "k = ''date''")
    case True
    with Cons kv show ?thesis by (simp add: nonDate_def)
  next
    case nd: False
    show ?thesis
    proof (cases "k \<in> set sleepAnalysisDateFields")
      case True
      with Cons.prems kv nd obtain t where t: "parseMetricDate e v = Inr t"
        and rest: "addFields_part0 e metric d (AddField k (Timestamp t) p) = Inr p'"
        by (auto simp: sleepFieldLoop_eq split: sum.splits)
      from Cons.IH [OF Cons.prems(1) rest] obtain fs where
        fs: "p' = (AddField k (Timestamp t) p)
               \<lparr>pointFields := pointFields (AddField k (Timestamp t) p) @ fs\<rparr>"
            "list_all2 (sleepFieldTranscoded e) (nonDate d) fs" by blast
      have "p' = p\<lparr>pointFields := pointFields p @ (k, Timestamp t) # fs\<rparr>"
        using fs(1) by (simp add: AddField_def)
      moreover have "list_all2 (sleepFieldTranscoded e) (nonDate (kv # d)) ((k, Timestamp t) # fs)"
        using fs(2) kv nd True t by (simp add: nonDate_def sleepFieldTranscoded_def)
      ultimately show ?thesis by blast
    next
      case False
      with Cons.prems kv nd have rest: "addFields_part0 e metric d (AddField k (Raw v) p) = Inr p'"
        by (auto simp: sleepFieldLoop_eq)
      from Cons.IH [OF Cons.prems(1) rest] obtain fs where
        fs: "p' = (AddField k (Raw v) p)\<lparr>pointFields := pointFields (AddField k (Raw v) p) @ fs\<rparr>"
            "list_all2 (sleepFieldTranscoded e) (nonDate d) fs" by blast
      have "p' = p\<lparr>pointFields := pointFields p @ (k, Raw v) # fs\<rparr>"
        using fs(1) by (simp add: AddField_def)
      moreover have "list_all2 (sleepFieldTranscoded e) (nonDate (kv # d)) ((k, Raw v) # fs)"
        using fs(2) kv nd False by (simp add: nonDate_def sleepFieldTranscoded_def)
      ultimately show ?thesis by blast
    qed
  qed
qed


lemma addFields_part0_keys:
  assumes "addFields_part0 e metric d p = Inr p'"
  shows "\<exists>fs. p' = p\<lparr>pointFields := pointFields p @ fs\<rparr> \<and> map fst fs = map fst (nonDate d)"
proof (cases "Name metric = ''sleep_analysis''")
  case True
  from addFields_part0_sleep [OF True assms] obtain fs where
    fs: "p' = p\<lparr>pointFields := pointFields p @ fs\<rparr>"
        "list_all2 (sleepFieldTranscoded e) (nonDate d) fs"
    by blast
  from fs(2) have "map fst fs = map fst (nonDate d)"
    by (induction rule: list_all2_induct) (auto simp: sleepFieldTranscoded_def)
  with fs(1) show ?thesis by blast
next
  case False
  with assms addFields_part0_other [OF False, of e d p]
  have "p' = p\<lparr>pointFields := pointFields p @ copiedFields d\<rparr>"
    by simp
  with keys_copiedFields [of d] show ?thesis by blast
qed

lemma parseMetricDataPoint_part0_cases:
  "parseMetricDataPoint_part0 e metric datum w =
     (case map_of datum ''date'' of
        None \<Rightarrow> (None, w)
      | Some date \<Rightarrow>
          (case parseMetricDate e date of
             Inl err \<Rightarrow> (Some err, w)
           | Inr t \<Rightarrow>
               (case addFields_part0 e metric datum
                       \<lparr>measurement = ''apple_health_'' @ Name metric, timestamp = Some t,
                        pointTags = [(''units'', Units metric)], pointFields = []\<rparr> of
                  Inl err \<Rightarrow> (Some err, w)
                | Inr p \<Rightarrow> WritePoint e p w)))"
  by (simp add: parseMetricDataPoint_part0_def AddTag_def SetTime_def
        NewPointWithMeasurement_def split: option.splits sum.splits)

subsection \<open>What a record and a metric add to the world\<close>

lemma parseMetricDataPoint_main_world:
  "\<exists>ps. snd (parseMetricDataPoint_main e metric datum w) = w\<lparr>submitted := submitted w @ ps\<rparr>
        \<and> list_all (emittedPointInvariant e metric datum) ps
        \<and> list_all (\<lambda>p. pointFields p = copiedFields datum) ps"
proof (cases "snd (parseMetricDataPoint_main e metric datum w) = w")
  case True
  then have "snd (parseMetricDataPoint_main e metric datum w) = w\<lparr>submitted := submitted w @ []\<rparr>"
    by simp
  then show ?thesis by (intro exI [of _ "[]"]) simp
next
  case False
  then obtain s t where st: "map_of datum ''date'' = Some (JString s)" "timeParse e s = Inr t"
    by (auto simp: parseMetricDataPoint_main_cases split: option.splits json.splits sum.splits)
  let ?p = "\<lparr>measurement = ''apple_health_'' @ Name metric, timestamp = Some t,
              pointTags = [(''units'', Units metric)], pointFields = copiedFields datum\<rparr>"
  have "snd (parseMetricDataPoint_main e metric datum w) = w\<lparr>submitted := submitted w @ [?p]\<rparr>"
    using st by (simp add: parseMetricDataPoint_main_cases WritePoint_def)
  moreover have "emittedPointInvariant e metric datum ?p"
    using st by (simp add: emittedPointInvariant_def date_notin_copiedFields)
  ultimately show ?thesis
    by (intro exI [of _ "[?p]"]) simp
qed

lemma parseMetricDataPoint_part0_world:
  "\<exists>ps. snd (parseMetricDataPoint_part0 e metric datum w) = w\<lparr>submitted := submitted w @ ps\<rparr>
        \<and> list_all (emittedPointInvariant e metric datum) ps
        \<and> list_all (\<lambda>p. if Name metric = ''sleep_analysis''
                         then list_all2 (sleepFieldTranscoded e) (nonDate datum) (pointFields p)
                         else pointFields p = copiedFields datum) ps"
proof (cases "snd (parseMetricDataPoint_part0 e metric datum w) = w")
  case True
  then have "snd (parseMetricDataPoint_part0 e metric datum w) = w\<lparr>submitted := submitted w @ []\<rparr>"
    by simp
  then show ?thesis by (intro exI [of _ "[]"]) simp
next
  case False
  let ?p0 = "\<lparr>measurement = ''apple_health_'' @ Name metric, timestamp = Some t,
              pointTags = [(''units'', Units metric)], pointFields = []\<rparr>"
  from False obtain date t p where d: "map_of datum ''date'' = Some date"
    and t: "parseMetricDate e date = Inr t"
    and p: "addFields_part0 e metric datum
              \<lparr>measurement = ''apple_health_'' @ Name metric, timestamp = Some t,
               pointTags = [(''units'', Units metric)], pointFields = []\<rparr> = Inr p"
    by (auto simp: parseMetricDataPoint_part0_cases split: option.splits sum.splits)
  have w': "snd (parseMetricDataPoint_part0 e metric datum w) = w\<lparr>submitted := submitted w @ [p]\<rparr>"
    using d t p by (simp add: parseMetricDataPoint_part0_cases WritePoint_def)
  from addFields_part0_keys [OF p] obtain fs where
    fs: "p = \<lparr>measurement = ''apple_health_'' @ Name metric, timestamp = Some t,
               pointTags = [(''units'', Units metric)], pointFields = fs\<rparr>"
        "map fst fs = map fst (nonDate datum)" by auto
  from fs(2) have "fst ` set fs = fst ` set (nonDate datum)"
    by (metis set_map)
  with date_notin_nonDate [of datum] have "''date'' \<notin> fst ` set fs" by simp
  moreover from t obtain s where "date = JString s" "timeParse e s = Inr t"
    by (auto simp: parseMetricDate_Inr)
  ultimately have inv: "emittedPointInvariant e metric datum p"
    using d fs(1) by (simp add: emittedPointInvariant_def)
  have flds: "if Name metric = ''sleep_analysis''
              then list_all2 (sleepFieldTranscoded e) (nonDate datum) (pointFields p)
              else pointFields p = copiedFields datum"
  proof (cases "Name metric = ''sleep_analysis''")
    case True
    from addFields_part0_sleep [OF True p] show ?thesis using True by auto
  next
    case False
    from addFields_part0_other [OF False, of e datum] p show ?thesis using False by auto
  qed
  show ?thesis
    using w' inv flds by (intro exI [of _ "[p]"]) simp
qed

lemma rangeData_main_failFast:
  "rangeData_main e metric ds w = failFast (parseMetricDataPoint_main e metric) ds w"
  by (induction ds arbitrary: w) (auto split: prod.splits option.splits)

lemma rangeData_part0_failFast:
  "rangeData_part0 e metric ds w = failFast (parseMetricDataPoint_part0 e metric) ds w"
  by (induction ds arbitrary: w) (auto split: prod.splits option.splits)

lemma failFast_world:
  assumes step: "\<And>d w. \<exists>ps. snd (P d w) = w\<lparr>submitted := submitted w @ ps\<rparr> \<and> list_all (Q d) ps"
  shows "\<exists>ps. snd (failFast P ds w) = w\<lparr>submitted := submitted w @ ps\<rparr>
              \<and> list_all (\<lambda>p. list_ex (\<lambda>d. Q d p) ds) ps"
proof (induction ds arbitrary: w)
  case Nil
  show ?case by (intro exI [of _ "[]"]) simp
next
  case (Cons d ds)
  obtain r w1 where P: "P d w = (r, w1)" by (cases "P d w")
  from step [of d w] P obtain ps where
    ps: "w1 = w\<lparr>submitted := submitted w @ ps\<rparr>" "list_all (Q d) ps" by auto
  show ?case
  proof (cases r)
    case (Some err)
    with P have "snd (failFast P (d # ds) w) = w1" by simp
    with ps show ?thesis
      by (intro exI [of _ ps]) (auto simp: list_all_iff)
  next
    case None
    from Cons.IH [of w1] obtain qs where
      qs: "snd (failFast P ds w1) = w1\<lparr>submitted := submitted w1 @ qs\<rparr>"
          "list_all (\<lambda>p. list_ex (\<lambda>d. Q d p) ds) qs" by blast
    from None P have "snd (failFast P (d # ds) w) = snd (failFast P ds w1)" by simp
    with qs(1) ps(1) have "snd (failFast P (d # ds) w) = w\<lparr>submitted := submitted w @ (ps @ qs)\<rparr>"
      by simp
    moreover have "list_all (\<lambda>p. list_ex (\<lambda>d. Q d p) (d # ds)) (ps @ qs)"
      using ps(2) qs(2) by (auto simp: list_all_iff)
    ultimately show ?thesis by blast
  qed
qed

lemma incomingMetric_main_snd:
  "snd (incomingMetric_main e (Some metric) w) = w
   \<or> snd (incomingMetric_main e (Some metric) w)
       = snd (failFast (parseMetricDataPoint_main e metric) (Data metric) w)"
  by (simp add: incomingMetric_main_def rangeData_main_failFast split: prod.splits)

lemma incomingMetric_part0_snd:
  "snd (incomingMetric_part0 e (Some metric) w)
     = snd (failFast (parseMetricDataPoint_part0 e metric) (Data metric) w)"
  by (simp add: incomingMetric_part0_def split: prod.splits)
     (simp add: rangeData_part0_failFast)

lemma emitted_main_record:
  "list_all (emittedPointInvariant e metric datum)
     (emitted w (snd (parseMetricDataPoint_main e metric datum w)))"
  using parseMetricDataPoint_main_world [of e metric datum w] by auto

lemma emitted_part0_record:
  "list_all (emittedPointInvariant e metric datum)
     (emitted w (snd (parseMetricDataPoint_part0 e metric datum w)))"
  using parseMetricDataPoint_part0_world [of e metric datum w] by auto

lemma emitted_main_metric:
  "list_all (\<lambda>p. list_ex (\<lambda>d. emittedPointInvariant e metric d p) (Data metric))
     (emitted w (snd (incomingMetric_main e (Some metric) w)))"
proof -
  have "\<exists>ps. snd (parseMetricDataPoint_main e metric d w) = w\<lparr>submitted := submitted w @ ps\<rparr>
             \<and> list_all (emittedPointInvariant e metric d) ps" for d w
    using parseMetricDataPoint_main_world [of e metric d w] by blast
  from failFast_world [of "parseMetricDataPoint_main e metric" "emittedPointInvariant e metric",
      OF this, of "Data metric" w]
  have "list_all (\<lambda>p. list_ex (\<lambda>d. emittedPointInvariant e metric d p) (Data metric))
     (emitted w (snd (failFast (parseMetricDataPoint_main e metric) (Data metric) w)))"
    by auto
  with incomingMetric_main_snd [of e metric w] show ?thesis by auto
qed

lemma emitted_part0_metric:
  "list_all (\<lambda>p. list_ex (\<lambda>d. emittedPointInvariant e metric d p) (Data metric))
     (emitted w (snd (incomingMetric_part0 e (Some metric) w)))"
proof -
  have "\<exists>ps. snd (parseMetricDataPoint_part0 e metric d w) = w\<lparr>submitted := submitted w @ ps\<rparr>
             \<and> list_all (emittedPointInvariant e metric d) ps" for d w
    using parseMetricDataPoint_part0_world [of e metric d w] by blast
  from failFast_world [of "parseMetricDataPoint_part0 e metric" "emittedPointInvariant e metric",
      OF this, of "Data metric" w]
  have "list_all (\<lambda>p. list_ex (\<lambda>d. emittedPointInvariant e metric d p) (Data metric))
     (emitted w (snd (failFast (parseMetricDataPoint_part0 e metric) (Data metric) w)))"
    by auto
  with incomingMetric_part0_snd [of e metric w] show ?thesis by auto
qed

subsection \<open>The examples evaluated\<close>

lemma exampleEnv_simps:
  "timeParse exampleEnv = timeParseLayout"
  "influxWriteAPI exampleEnv h p = None"
  "authenticationToken exampleEnv = ''supersecret''"
  "jsonUnmarshal exampleEnv ''metrics'' = Inr examplePayload"
  by (simp_all add: exampleEnv_def)

lemma timeParseLayout_examples:
  "timeParseLayout ''2024-01-01 08:00:00 +0000''
     = Inr \<lparr>year = 2024, month = 1, day = 1, hour = 8, minute = 0, second = 0, nanosecond = 0, zoneOffset = 0\<rparr>"
  "timeParseLayout ''2024-01-01 23:10:00 +0100''
     = Inr \<lparr>year = 2024, month = 1, day = 1, hour = 23, minute = 10, second = 0, nanosecond = 0, zoneOffset = 3600\<rparr>"
  "timeParseLayout ''2024-01-02 07:00:00 +0100''
     = Inr \<lparr>year = 2024, month = 1, day = 2, hour = 7, minute = 0, second = 0, nanosecond = 0, zoneOffset = 3600\<rparr>"
  by (simp_all add: timeParseLayout_def isDigit_def digitsVal_def daysIn_def)

lemma heartRate_record_main:
  "parseMetricDataPoint_main (e\<lparr>timeParse := timeParseLayout\<rparr>) heartRateMetric
     [(''date'', JString ''2024-01-01 08:00:00 +0000''), (''value'', JNumber 72)] w
   = (influxWriteAPI e (submitted w) heartRatePoint, w\<lparr>submitted := submitted w @ [heartRatePoint]\<rparr>)"
  by (simp add: parseMetricDataPoint_main_cases timeParseLayout_examples WritePoint_def
        heartRateMetric_def heartRatePoint_def copiedFields_def nonDate_def)

lemma heartRate_record_part0:
  "parseMetricDataPoint_part0 (e\<lparr>timeParse := timeParseLayout\<rparr>) heartRateMetric
     [(''date'', JString ''2024-01-01 08:00:00 +0000''), (''value'', JNumber 72)] w
   = (influxWriteAPI e (submitted w) heartRatePoint, w\<lparr>submitted := submitted w @ [heartRatePoint]\<rparr>)"
  by (simp add: parseMetricDataPoint_part0_cases parseMetricDate_def timeParseLayout_examples
        WritePoint_def heartRateMetric_def heartRatePoint_def AddField_def)

lemma heartRate_records_example:
  "parseMetricDataPoint_main exampleEnv heartRateMetric
     [(''date'', JString ''2024-01-01 08:00:00 +0000''), (''value'', JNumber 72)] w
   = (None, w\<lparr>submitted := submitted w @ [heartRatePoint]\<rparr>)"
  "parseMetricDataPoint_part0 exampleEnv heartRateMetric
     [(''date'', JString ''2024-01-01 08:00:00 +0000''), (''value'', JNumber 72)] w
   = (None, w\<lparr>submitted := submitted w @ [heartRatePoint]\<rparr>)"
proof -
  have "exampleEnv\<lparr>timeParse := timeParseLayout\<rparr> = exampleEnv"
    by (simp add: exampleEnv_def)
  with heartRate_record_main [of exampleEnv w] heartRate_record_part0 [of exampleEnv w]
  show "parseMetricDataPoint_main exampleEnv heartRateMetric
     [(''date'', JString ''2024-01-01 08:00:00 +0000''), (''value'', JNumber 72)] w
   = (None, w\<lparr>submitted := submitted w @ [heartRatePoint]\<rparr>)"
  and "parseMetricDataPoint_part0 exampleEnv heartRateMetric
     [(''date'', JString ''2024-01-01 08:00:00 +0000''), (''value'', JNumber 72)] w
   = (None, w\<lparr>submitted := submitted w @ [heartRatePoint]\<rparr>)"
    by (simp_all add: exampleEnv_simps)
qed

lemma step_records_main:
  "parseMetricDataPoint_main exampleEnv stepMetric
     [(''date'', JString ''2024-01-01 08:00:00 +0000''), (''qty'', JNumber 10)] w
     = (None, w\<lparr>submitted := submitted w @ [stepPoint]\<rparr>)"
  "parseMetricDataPoint_main exampleEnv stepMetric [(''date'', JNumber 5), (''qty'', JNumber 20)] w
     = (Some (ErrorString ''date must be string''), w)"
  by (simp_all add: parseMetricDataPoint_main_cases exampleEnv_simps timeParseLayout_examples
        WritePoint_def stepMetric_def stepPoint_def copiedFields_def nonDate_def)

lemma step_records_part0:
  "parseMetricDataPoint_part0 exampleEnv stepMetric
     [(''date'', JString ''2024-01-01 08:00:00 +0000''), (''qty'', JNumber 10)] w
     = (None, w\<lparr>submitted := submitted w @ [stepPoint]\<rparr>)"
  "parseMetricDataPoint_part0 exampleEnv stepMetric [(''date'', JNumber 5), (''qty'', JNumber 20)] w
     = (Some (ErrorString ''date must be string''), w)"
  by (simp_all add: parseMetricDataPoint_part0_cases parseMetricDate_def exampleEnv_simps
        timeParseLayout_examples WritePoint_def stepMetric_def stepPoint_def AddField_def)

lemma Data_examples:
  "Data stepMetric
     = [[(''date'', JString ''2024-01-01 08:00:00 +0000''), (''qty'', JNumber 10)],
        [(''date'', JNumber 5), (''qty'', JNumber 20)],
        [(''date'', JString ''2024-01-02 07:00:00 +0100''), (''qty'', JNumber 30)]]"
  "Name stepMetric = ''step_count''"
  "Data heartRateMetric
     = [[(''date'', JString ''2024-01-01 08:00:00 +0000''), (''value'', JNumber 72)]]"
  "Name heartRateMetric = ''heart_rate''"
  by (simp_all add: stepMetric_def heartRateMetric_def)

subsection \<open>Records without a date, and records with a bad one\<close>

text \<open>
  Claim C5. A data record that has no \<open>date\<close> key makes \<^verbatim>\<open>parseMetricDataPoint\<close>
  return success (the nil error) in both files, with the world as it was: no point is
  emitted, nothing is written, and no error is reported.
\<close>

theorem C5_missing_date_is_skipped:
  assumes "''date'' \<notin> fst ` set datum"
  shows "parseMetricDataPoint_main e metric datum w = (None, w)
       \<and> parseMetricDataPoint_part0 e metric datum w = (None, w)"
proof -
  from assms have "map_of datum ''date'' = None"
    by (simp add: map_of_eq_None_iff)
  then show ?thesis
    by (simp add: parseMetricDataPoint_main_def parseMetricDataPoint_part0_def)
qed

theorem C5_missing_date_is_skipped_witness:
  "''date'' \<notin> fst ` set [(''value'', JNumber 72)]
   \<and> parseMetricDataPoint_main exampleEnv \<lparr>Name = ''heart_rate'', Data = [], Units = ''count/min''\<rparr>
        [(''value'', JNumber 72)] emptyWorld = (None, emptyWorld)
   \<and> parseMetricDataPoint_part0 exampleEnv \<lparr>Name = ''heart_rate'', Data = [], Units = ''count/min''\<rparr>
        [(''value'', JNumber 72)] emptyWorld = (None, emptyWorld)"
proof -
  have h: "''date'' \<notin> fst ` set [(''value'', JNumber 72)]" by simp
  show ?thesis
    using h C5_missing_date_is_skipped [OF h, of exampleEnv
      "\<lparr>Name = ''heart_rate'', Data = [], Units = ''count/min''\<rparr>" emptyWorld]
    by simp
qed

text \<open>
  Claim C6. When the \<open>date\<close> value of a record is present but is not a string,
  \<^verbatim>\<open>parseMetricDataPoint\<close> returns the error \<open>date must be string\<close>; when it is a
  string that \<^verbatim>\<open>time.Parse\<close> rejects at the fixed layout, it returns that parse error.
  Either way, in both files, the world is unchanged: no point is emitted for the record.
\<close>

theorem C6_bad_date_is_an_error:
  assumes "map_of datum ''date'' = Some date"
  shows "((\<forall>s. date \<noteq> JString s) \<longrightarrow>
            parseMetricDataPoint_main e metric datum w
              = (Some (ErrorString ''date must be string''), w)
          \<and> parseMetricDataPoint_part0 e metric datum w
              = (Some (ErrorString ''date must be string''), w))
       \<and> (\<forall>s err. date = JString s \<and> timeParse e s = Inl err \<longrightarrow>
            parseMetricDataPoint_main e metric datum w = (Some err, w)
          \<and> parseMetricDataPoint_part0 e metric datum w = (Some err, w))"
  using assms
  by (auto simp: parseMetricDataPoint_main_def parseMetricDataPoint_part0_def parseMetricDate_def
           split: json.splits)

theorem C6_bad_date_is_an_error_witness:
  "map_of [(''date'', JNumber 5), (''value'', JNumber 72)] ''date'' = Some (JNumber 5)
   \<and> (\<forall>s. JNumber 5 \<noteq> JString s)
   \<and> parseMetricDataPoint_main exampleEnv \<lparr>Name = ''heart_rate'', Data = [], Units = ''count/min''\<rparr>
        [(''date'', JNumber 5), (''value'', JNumber 72)] emptyWorld
      = (Some (ErrorString ''date must be string''), emptyWorld)
   \<and> parseMetricDataPoint_part0 exampleEnv \<lparr>Name = ''heart_rate'', Data = [], Units = ''count/min''\<rparr>
        [(''date'', JNumber 5), (''value'', JNumber 72)] emptyWorld
      = (Some (ErrorString ''date must be string''), emptyWorld)
   \<and> map_of [(''date'', JString ''yesterday''), (''value'', JNumber 72)] ''date''
      = Some (JString ''yesterday'')
   \<and> timeParse exampleEnv ''yesterday'' = Inl (ParseError ''yesterday'')
   \<and> parseMetricDataPoint_main exampleEnv \<lparr>Name = ''heart_rate'', Data = [], Units = ''count/min''\<rparr>
        [(''date'', JString ''yesterday''), (''value'', JNumber 72)] emptyWorld
      = (Some (ParseError ''yesterday''), emptyWorld)
   \<and> parseMetricDataPoint_part0 exampleEnv \<lparr>Name = ''heart_rate'', Data = [], Units = ''count/min''\<rparr>
        [(''date'', JString ''yesterday''), (''value'', JNumber 72)] emptyWorld
      = (Some (ParseError ''yesterday''), emptyWorld)"
proof -
  have h1: "map_of [(''date'', JNumber 5), (''value'', JNumber 72)] ''date'' = Some (JNumber 5)"
    by simp
  have h2: "map_of [(''date'', JString ''yesterday''), (''value'', JNumber 72)] ''date''
              = Some (JString ''yesterday'')"
    by simp
  have h3: "timeParse exampleEnv ''yesterday'' = Inl (ParseError ''yesterday'')"
    by (simp add: exampleEnv_def timeParseLayout_def)
  show ?thesis
    using h1 h2 h3
      C6_bad_date_is_an_error [OF h1, of exampleEnv
        "\<lparr>Name = ''heart_rate'', Data = [], Units = ''count/min''\<rparr>" emptyWorld]
      C6_bad_date_is_an_error [OF h2, of exampleEnv
        "\<lparr>Name = ''heart_rate'', Data = [], Units = ''count/min''\<rparr>" emptyWorld]
    by simp
qed

subsection \<open>Sleep metrics in src/main.go\<close>

text \<open>
  Claim C2. In \<^verbatim>\<open>src/main.go\<close>, for a metric named \<open>sleep_analysis\<close> with a non-empty
  data sequence, \<^verbatim>\<open>incomingMetric\<close> returns success and leaves the world as it was: the
  metric is skipped before any of its records is processed, and zero points are emitted.
\<close>

theorem C2_main_skips_sleep_analysis:
  assumes "Name metric = ''sleep_analysis''" and "Data metric \<noteq> []"
  shows "incomingMetric_main e (Some metric) w = (Return None, w)"
  using assms by (simp add: incomingMetric_main_def)

theorem C2_main_skips_sleep_analysis_witness:
  "Name \<lparr>Name = ''sleep_analysis'',
         Data = [[(''date'', JString ''2024-01-01 08:00:00 +0000''), (''value'', JNumber 7)]],
         Units = ''hr''\<rparr> = ''sleep_analysis''
   \<and> Data \<lparr>Name = ''sleep_analysis'',
           Data = [[(''date'', JString ''2024-01-01 08:00:00 +0000''), (''value'', JNumber 7)]],
           Units = ''hr''\<rparr> \<noteq> []
   \<and> incomingMetric_main exampleEnv
        (Some \<lparr>Name = ''sleep_analysis'',
               Data = [[(''date'', JString ''2024-01-01 08:00:00 +0000''), (''value'', JNumber 7)]],
               Units = ''hr''\<rparr>) emptyWorld = (Return None, emptyWorld)"
  using C2_main_skips_sleep_analysis [of
      "\<lparr>Name = ''sleep_analysis'',
        Data = [[(''date'', JString ''2024-01-01 08:00:00 +0000''), (''value'', JNumber 7)]],
        Units = ''hr''\<rparr>" exampleEnv emptyWorld]
  by simp

subsection \<open>The shape of every emitted point\<close>

text \<open>
  Claim C7. Every point that the transcoder hands to the write API, for any metric and
  record and in both files, has the measurement name \<open>apple_health_\<close> followed by the
  metric's name, exactly one timestamp, which is the parsed \<open>date\<close> value of the record it
  comes from, the tag \<open>units\<close> with the metric's units, and no field named \<open>date\<close>. This
  holds of the points of one record (\<^verbatim>\<open>parseMetricDataPoint\<close>) and of all the points
  of a metric (\<^verbatim>\<open>incomingMetric\<close>), each of which comes from one of its records.
\<close>

theorem C7_emitted_point_invariant:
  "list_all (emittedPointInvariant e metric datum)
     (emitted w (snd (parseMetricDataPoint_main e metric datum w)))
   \<and> list_all (emittedPointInvariant e metric datum)
       (emitted w (snd (parseMetricDataPoint_part0 e metric datum w)))
   \<and> list_all (\<lambda>p. list_ex (\<lambda>d. emittedPointInvariant e metric d p) (Data metric))
       (emitted w (snd (incomingMetric_main e (Some metric) w)))
   \<and> list_all (\<lambda>p. list_ex (\<lambda>d. emittedPointInvariant e metric d p) (Data metric))
       (emitted w (snd (incomingMetric_part0 e (Some metric) w)))"
  using emitted_main_record emitted_part0_record emitted_main_metric emitted_part0_metric
  by blast

theorem C7_emitted_point_invariant_witness:
  "emitted emptyWorld (snd (incomingMetric_part0 exampleEnv (Some heartRateMetric) emptyWorld))
     = [heartRatePoint]
   \<and> emitted emptyWorld (snd (incomingMetric_main exampleEnv (Some heartRateMetric) emptyWorld))
     = [heartRatePoint]
   \<and> list_all
        (\<lambda>p. list_ex (\<lambda>d. emittedPointInvariant exampleEnv heartRateMetric d p)
               (Data heartRateMetric))
        [heartRatePoint]"
proof -
  have e: "emitted emptyWorld (snd (incomingMetric_part0 exampleEnv (Some heartRateMetric) emptyWorld))
     = [heartRatePoint]"
    "emitted emptyWorld (snd (incomingMetric_main exampleEnv (Some heartRateMetric) emptyWorld))
     = [heartRatePoint]"
    by (simp_all add: incomingMetric_part0_def incomingMetric_main_def Data_examples
          heartRate_records_example)
  from C7_emitted_point_invariant [of exampleEnv heartRateMetric _ emptyWorld]
  have "list_all
        (\<lambda>p. list_ex (\<lambda>d. emittedPointInvariant exampleEnv heartRateMetric d p)
               (Data heartRateMetric))
        (emitted emptyWorld
           (snd (incomingMetric_part0 exampleEnv (Some heartRateMetric) emptyWorld)))"
    by blast
  with e show ?thesis by simp
qed

subsection \<open>Sleep records\<close>



subsection \<open>The round trip of a heart-rate record\<close>



subsection \<open>Fail-fast processing of the records of a metric\<close>

lemma stateAfter_Cons: "stateAfter P (d # ds) w = stateAfter P ds (snd (P d w))"
  by (simp add: stateAfter_def)

lemma recordOutcome_0: "recordOutcome P (d # ds) w 0 = P d w"
  by (simp add: recordOutcome_def stateAfter_def)

lemma recordOutcome_Suc: "recordOutcome P (d # ds) w (Suc i) = recordOutcome P ds (snd (P d w)) i"
  by (simp add: recordOutcome_def stateAfter_Cons)

lemma failFast_first_error:
  "i < length ds \<Longrightarrow> \<forall>j<i. fst (recordOutcome P ds w j) = None \<Longrightarrow>
   recordOutcome P ds w i = (Some err, w') \<Longrightarrow> failFast P ds w = (Some err, w')"
proof (induction ds arbitrary: i w)
  case Nil
  then show ?case by simp
next
  case (Cons d ds)
  show ?case
  proof (cases i)
    case 0
    with Cons.prems(3) show ?thesis by (simp add: recordOutcome_0)
  next
    case (Suc k)
    from Cons.prems(2) Suc have "fst (recordOutcome P (d # ds) w 0) = None" by blast
    then have d: "fst (P d w) = None" by (simp add: recordOutcome_0)
    have "\<forall>j<k. fst (recordOutcome P ds (snd (P d w)) j) = None"
    proof (intro allI impI)
      fix j assume "j < k"
      then have "Suc j < i" using Suc by simp
      with Cons.prems(2) have "fst (recordOutcome P (d # ds) w (Suc j)) = None" by blast
      then show "fst (recordOutcome P ds (snd (P d w)) j) = None"
        by (simp add: recordOutcome_Suc)
    qed
    moreover have "k < length ds" using Cons.prems(1) Suc by simp
    moreover have "recordOutcome P ds (snd (P d w)) k = (Some err, w')"
      using Cons.prems(3) Suc by (simp add: recordOutcome_Suc)
    ultimately have "failFast P ds (snd (P d w)) = (Some err, w')"
      using Cons.IH [of k "snd (P d w)"] by blast
    with d show ?thesis by (cases "P d w") simp
  qed
qed

lemma failFast_no_error:
  "\<forall>j<length ds. fst (recordOutcome P ds w j) = None \<Longrightarrow>
   failFast P ds w = (None, stateAfter P ds w)"
proof (induction ds arbitrary: w)
  case Nil
  then show ?case by (simp add: stateAfter_def)
next
  case (Cons d ds)
  from Cons.prems have "fst (recordOutcome P (d # ds) w 0) = None" by auto
  then have d: "fst (P d w) = None" by (simp add: recordOutcome_0)
  have "\<forall>j<length ds. fst (recordOutcome P ds (snd (P d w)) j) = None"
  proof (intro allI impI)
    fix j assume "j < length ds"
    then have "Suc j < length (d # ds)" by simp
    with Cons.prems have "fst (recordOutcome P (d # ds) w (Suc j)) = None" by blast
    then show "fst (recordOutcome P ds (snd (P d w)) j) = None"
      by (simp add: recordOutcome_Suc)
  qed
  from Cons.IH [OF this] d show ?case
    by (cases "P d w") (simp add: stateAfter_Cons)
qed

lemma incomingMetric_part0_failFast:
  "incomingMetric_part0 e (Some metric) w
     = (Return (fst (failFast (parseMetricDataPoint_part0 e metric) (Data metric) w)),
        snd (failFast (parseMetricDataPoint_part0 e metric) (Data metric) w))"
  by (cases "Data metric")
     (simp_all add: incomingMetric_part0_def rangeData_part0_failFast split: prod.splits)

lemma incomingMetric_main_failFast:
  "Name metric \<noteq> ''sleep_analysis'' \<Longrightarrow>
   incomingMetric_main e (Some metric) w
     = (Return (fst (failFast (parseMetricDataPoint_main e metric) (Data metric) w)),
        snd (failFast (parseMetricDataPoint_main e metric) (Data metric) w))"
  by (cases "Data metric")
     (simp_all add: incomingMetric_main_def rangeData_main_failFast split: prod.splits)

lemma step_outcomes:
  "recordOutcome (parseMetricDataPoint_part0 exampleEnv stepMetric) (Data stepMetric) w 0
     = (None, w\<lparr>submitted := submitted w @ [stepPoint]\<rparr>)"
  "recordOutcome (parseMetricDataPoint_part0 exampleEnv stepMetric) (Data stepMetric) w (Suc 0)
     = (Some (ErrorString ''date must be string''), w\<lparr>submitted := submitted w @ [stepPoint]\<rparr>)"
  "recordOutcome (parseMetricDataPoint_main exampleEnv stepMetric) (Data stepMetric) w 0
     = (None, w\<lparr>submitted := submitted w @ [stepPoint]\<rparr>)"
  "recordOutcome (parseMetricDataPoint_main exampleEnv stepMetric) (Data stepMetric) w (Suc 0)
     = (Some (ErrorString ''date must be string''), w\<lparr>submitted := submitted w @ [stepPoint]\<rparr>)"
  by (simp_all add: recordOutcome_def stateAfter_def Data_examples step_records_main
        step_records_part0)

lemma heartRate_outcomes:
  "recordOutcome (parseMetricDataPoint_part0 exampleEnv heartRateMetric) (Data heartRateMetric) w 0
     = (None, w\<lparr>submitted := submitted w @ [heartRatePoint]\<rparr>)"
  "recordOutcome (parseMetricDataPoint_main exampleEnv heartRateMetric) (Data heartRateMetric) w 0
     = (None, w\<lparr>submitted := submitted w @ [heartRatePoint]\<rparr>)"
  by (simp_all add: recordOutcome_def stateAfter_def Data_examples heartRate_records_example)

text \<open>
  Claim C4, as amended. A metric with zero data records succeeds with no action, in both
  files. In \<^verbatim>\<open>src/unnamed/part_000\<close> for every metric, and in \<^verbatim>\<open>src/main.go\<close> for
  every metric not named \<open>sleep_analysis\<close>, the records are processed in order: when
  record \<open>i\<close> is the first whose \<^verbatim>\<open>parseMetricDataPoint\<close> returns an error,
  \<^verbatim>\<open>incomingMetric\<close> returns that same error and the world is the one that record \<open>i\<close>
  left, so none of the remaining records is processed or written; when no record returns an
  error, \<^verbatim>\<open>incomingMetric\<close> succeeds and every record has been processed.
\<close>

theorem C4_fail_fast_within_a_metric:
  "(Data metric = [] \<longrightarrow>
      incomingMetric_part0 e (Some metric) w = (Return None, w)
      \<and> incomingMetric_main e (Some metric) w = (Return None, w))
   \<and> (\<forall>i err w'.
        i < length (Data metric)
        \<and> (\<forall>j<i. fst (recordOutcome (parseMetricDataPoint_part0 e metric) (Data metric) w j) = None)
        \<and> recordOutcome (parseMetricDataPoint_part0 e metric) (Data metric) w i = (Some err, w')
        \<longrightarrow> incomingMetric_part0 e (Some metric) w = (Return (Some err), w'))
   \<and> ((\<forall>j<length (Data metric).
          fst (recordOutcome (parseMetricDataPoint_part0 e metric) (Data metric) w j) = None)
        \<longrightarrow> incomingMetric_part0 e (Some metric) w
              = (Return None, stateAfter (parseMetricDataPoint_part0 e metric) (Data metric) w))
   \<and> (Name metric \<noteq> ''sleep_analysis'' \<longrightarrow>
        (\<forall>i err w'.
           i < length (Data metric)
           \<and> (\<forall>j<i. fst (recordOutcome (parseMetricDataPoint_main e metric) (Data metric) w j) = None)
           \<and> recordOutcome (parseMetricDataPoint_main e metric) (Data metric) w i = (Some err, w')
           \<longrightarrow> incomingMetric_main e (Some metric) w = (Return (Some err), w'))
        \<and> ((\<forall>j<length (Data metric).
              fst (recordOutcome (parseMetricDataPoint_main e metric) (Data metric) w j) = None)
            \<longrightarrow> incomingMetric_main e (Some metric) w
                  = (Return None, stateAfter (parseMetricDataPoint_main e metric) (Data metric) w)))"
proof (intro conjI impI allI)
  assume "Data metric = []"
  then show "incomingMetric_part0 e (Some metric) w = (Return None, w)"
    and "incomingMetric_main e (Some metric) w = (Return None, w)"
    by (simp_all add: incomingMetric_part0_def incomingMetric_main_def)
next
  fix i err w'
  assume "i < length (Data metric)
        \<and> (\<forall>j<i. fst (recordOutcome (parseMetricDataPoint_part0 e metric) (Data metric) w j) = None)
        \<and> recordOutcome (parseMetricDataPoint_part0 e metric) (Data metric) w i = (Some err, w')"
  then have "failFast (parseMetricDataPoint_part0 e metric) (Data metric) w = (Some err, w')"
    using failFast_first_error by blast
  then show "incomingMetric_part0 e (Some metric) w = (Return (Some err), w')"
    by (simp add: incomingMetric_part0_failFast)
next
  assume "\<forall>j<length (Data metric).
          fst (recordOutcome (parseMetricDataPoint_part0 e metric) (Data metric) w j) = None"
  from failFast_no_error [OF this]
  show "incomingMetric_part0 e (Some metric) w
              = (Return None, stateAfter (parseMetricDataPoint_part0 e metric) (Data metric) w)"
    by (simp add: incomingMetric_part0_failFast)
next
  fix i err w'
  assume n: "Name metric \<noteq> ''sleep_analysis''"
  assume "i < length (Data metric)
        \<and> (\<forall>j<i. fst (recordOutcome (parseMetricDataPoint_main e metric) (Data metric) w j) = None)
        \<and> recordOutcome (parseMetricDataPoint_main e metric) (Data metric) w i = (Some err, w')"
  then have "failFast (parseMetricDataPoint_main e metric) (Data metric) w = (Some err, w')"
    using failFast_first_error by blast
  then show "incomingMetric_main e (Some metric) w = (Return (Some err), w')"
    by (simp add: incomingMetric_main_failFast [OF n])
next
  assume n: "Name metric \<noteq> ''sleep_analysis''"
  assume "\<forall>j<length (Data metric).
          fst (recordOutcome (parseMetricDataPoint_main e metric) (Data metric) w j) = None"
  from failFast_no_error [OF this]
  show "incomingMetric_main e (Some metric) w
              = (Return None, stateAfter (parseMetricDataPoint_main e metric) (Data metric) w)"
    by (simp add: incomingMetric_main_failFast [OF n])
qed

theorem C4_fail_fast_within_a_metric_witness:
  "Suc 0 < length (Data stepMetric)
   \<and> Name stepMetric \<noteq> ''sleep_analysis''
   \<and> fst (recordOutcome (parseMetricDataPoint_part0 exampleEnv stepMetric)
            (Data stepMetric) emptyWorld 0) = None
   \<and> fst (recordOutcome (parseMetricDataPoint_main exampleEnv stepMetric)
            (Data stepMetric) emptyWorld 0) = None
   \<and> recordOutcome (parseMetricDataPoint_part0 exampleEnv stepMetric) (Data stepMetric)
         emptyWorld (Suc 0)
       = (Some (ErrorString ''date must be string''), emptyWorld\<lparr>submitted := [stepPoint]\<rparr>)
   \<and> recordOutcome (parseMetricDataPoint_main exampleEnv stepMetric) (Data stepMetric)
         emptyWorld (Suc 0)
       = (Some (ErrorString ''date must be string''), emptyWorld\<lparr>submitted := [stepPoint]\<rparr>)
   \<and> incomingMetric_part0 exampleEnv (Some stepMetric) emptyWorld
       = (Return (Some (ErrorString ''date must be string'')), emptyWorld\<lparr>submitted := [stepPoint]\<rparr>)
   \<and> incomingMetric_main exampleEnv (Some stepMetric) emptyWorld
       = (Return (Some (ErrorString ''date must be string'')), emptyWorld\<lparr>submitted := [stepPoint]\<rparr>)
   \<and> Data (stepMetric\<lparr>Data := []\<rparr>) = []
   \<and> incomingMetric_part0 exampleEnv (Some (stepMetric\<lparr>Data := []\<rparr>)) emptyWorld
       = (Return None, emptyWorld)
   \<and> incomingMetric_main exampleEnv (Some (stepMetric\<lparr>Data := []\<rparr>)) emptyWorld
       = (Return None, emptyWorld)
   \<and> Name heartRateMetric \<noteq> ''sleep_analysis''
   \<and> length (Data heartRateMetric) = Suc 0
   \<and> fst (recordOutcome (parseMetricDataPoint_part0 exampleEnv heartRateMetric)
            (Data heartRateMetric) emptyWorld 0) = None
   \<and> fst (recordOutcome (parseMetricDataPoint_main exampleEnv heartRateMetric)
            (Data heartRateMetric) emptyWorld 0) = None
   \<and> incomingMetric_part0 exampleEnv (Some heartRateMetric) emptyWorld
       = (Return None, emptyWorld\<lparr>submitted := [heartRatePoint]\<rparr>)
   \<and> incomingMetric_main exampleEnv (Some heartRateMetric) emptyWorld
       = (Return None, emptyWorld\<lparr>submitted := [heartRatePoint]\<rparr>)"
proof -
  have s: "submitted emptyWorld = []" by (simp add: emptyWorld_def)
  have a1: "Suc 0 < length (Data stepMetric)" "Name stepMetric \<noteq> ''sleep_analysis''"
    "Data (stepMetric\<lparr>Data := []\<rparr>) = []" "Name heartRateMetric \<noteq> ''sleep_analysis''"
    by (simp_all add: Data_examples)
  have a2: "\<forall>j<Suc 0. fst (recordOutcome (parseMetricDataPoint_part0 exampleEnv stepMetric)
                        (Data stepMetric) emptyWorld j) = None"
    "\<forall>j<Suc 0. fst (recordOutcome (parseMetricDataPoint_main exampleEnv stepMetric)
                        (Data stepMetric) emptyWorld j) = None"
    by (simp_all add: step_outcomes)
  have a3: "recordOutcome (parseMetricDataPoint_part0 exampleEnv stepMetric) (Data stepMetric)
              emptyWorld (Suc 0)
            = (Some (ErrorString ''date must be string''), emptyWorld\<lparr>submitted := [stepPoint]\<rparr>)"
    "recordOutcome (parseMetricDataPoint_main exampleEnv stepMetric) (Data stepMetric)
              emptyWorld (Suc 0)
            = (Some (ErrorString ''date must be string''), emptyWorld\<lparr>submitted := [stepPoint]\<rparr>)"
    by (simp_all add: step_outcomes s)
  have a4: "\<forall>j<length (Data heartRateMetric).
         fst (recordOutcome (parseMetricDataPoint_part0 exampleEnv heartRateMetric)
                (Data heartRateMetric) emptyWorld j) = None"
    "\<forall>j<length (Data heartRateMetric).
         fst (recordOutcome (parseMetricDataPoint_main exampleEnv heartRateMetric)
                (Data heartRateMetric) emptyWorld j) = None"
    by (simp_all add: Data_examples heartRate_outcomes [unfolded Data_examples])
  have a5: "stateAfter (parseMetricDataPoint_part0 exampleEnv heartRateMetric)
              (Data heartRateMetric) emptyWorld = emptyWorld\<lparr>submitted := [heartRatePoint]\<rparr>"
    "stateAfter (parseMetricDataPoint_main exampleEnv heartRateMetric)
              (Data heartRateMetric) emptyWorld = emptyWorld\<lparr>submitted := [heartRatePoint]\<rparr>"
    using heartRate_outcomes [of emptyWorld]
    by (simp_all add: stateAfter_def recordOutcome_def Data_examples s)
  note step = C4_fail_fast_within_a_metric [of stepMetric exampleEnv emptyWorld]
  note none = C4_fail_fast_within_a_metric [of "stepMetric\<lparr>Data := []\<rparr>" exampleEnv emptyWorld]
  note heart = C4_fail_fast_within_a_metric [of heartRateMetric exampleEnv emptyWorld]
  have r1: "incomingMetric_part0 exampleEnv (Some stepMetric) emptyWorld
       = (Return (Some (ErrorString ''date must be string'')), emptyWorld\<lparr>submitted := [stepPoint]\<rparr>)"
    using step a1(1) a2(1) a3(1) by blast
  have r2: "incomingMetric_main exampleEnv (Some stepMetric) emptyWorld
       = (Return (Some (ErrorString ''date must be string'')), emptyWorld\<lparr>submitted := [stepPoint]\<rparr>)"
    using step a1(1,2) a2(2) a3(2) by blast
  have r3: "incomingMetric_part0 exampleEnv (Some (stepMetric\<lparr>Data := []\<rparr>)) emptyWorld
       = (Return None, emptyWorld)"
    "incomingMetric_main exampleEnv (Some (stepMetric\<lparr>Data := []\<rparr>)) emptyWorld
       = (Return None, emptyWorld)"
    using none a1(3) by blast+
  have r4: "incomingMetric_part0 exampleEnv (Some heartRateMetric) emptyWorld
       = (Return None, emptyWorld\<lparr>submitted := [heartRatePoint]\<rparr>)"
    using heart a4(1) a5(1) by simp
  have r5: "incomingMetric_main exampleEnv (Some heartRateMetric) emptyWorld
       = (Return None, emptyWorld\<lparr>submitted := [heartRatePoint]\<rparr>)"
    using heart a1(4) a4(2) a5(2) by simp
  have b: "fst (recordOutcome (parseMetricDataPoint_part0 exampleEnv stepMetric)
            (Data stepMetric) emptyWorld 0) = None"
    "fst (recordOutcome (parseMetricDataPoint_main exampleEnv stepMetric)
            (Data stepMetric) emptyWorld 0) = None"
    "length (Data heartRateMetric) = Suc 0"
    "fst (recordOutcome (parseMetricDataPoint_part0 exampleEnv heartRateMetric)
            (Data heartRateMetric) emptyWorld 0) = None"
    "fst (recordOutcome (parseMetricDataPoint_main exampleEnv heartRateMetric)
            (Data heartRateMetric) emptyWorld 0) = None"
    by (simp_all add: step_outcomes heartRate_outcomes) (simp add: Data_examples)
  show ?thesis
    by (intro conjI a1 a3 b r1 r2 r3 r4 r5)
qed

text \<open>
  The claim as stated, for every metric, fails in \<^verbatim>\<open>src/main.go\<close>: the only record of
  this \<open>sleep_analysis\<close> metric makes \<^verbatim>\<open>parseMetricDataPoint\<close> return an error, and
  \<^verbatim>\<open>incomingMetric\<close> returns success, because it leaves before the loop.
\<close>

theorem C4_main_sleep_counterexample:
  "recordOutcome
     (parseMetricDataPoint_main exampleEnv
        \<lparr>Name = ''sleep_analysis'', Data = [[(''date'', JNumber 5)]], Units = ''hr''\<rparr>)
     [[(''date'', JNumber 5)]] emptyWorld 0
     = (Some (ErrorString ''date must be string''), emptyWorld)
   \<and> incomingMetric_main exampleEnv
       (Some \<lparr>Name = ''sleep_analysis'', Data = [[(''date'', JNumber 5)]], Units = ''hr''\<rparr>)
       emptyWorld
     = (Return None, emptyWorld)"
  by (simp add: recordOutcome_def stateAfter_def parseMetricDataPoint_main_def
        incomingMetric_main_def)

subsection \<open>The dispatch of the metrics of a payload\<close>










subsection \<open>Requests without the shared secret\<close>

text \<open>
  Claim C9, as amended. For every POST request whose \<open>Authorization\<close> header value, read
  as the empty string when the header is absent, is not equal to the configured shared
  secret, the handler of both files responds 403 with the body
  \<open>missing or invalid Authorization header\<close> and leaves the world as it was: zero points
  are emitted and the body is not read. The answer is the same for every request body and
  every JSON decoder, so the body is not parsed either.
\<close>

theorem C9_unauthorized_post_is_rejected:
  assumes "Method r = ''POST''"
    and "HeaderGet r ''Authorization'' \<noteq> authenticationToken e"
  shows "handleDataPayload_main e r newResponseWriter w
           = (Return (),
              \<lparr>wroteHeader = Some 403, written = ''missing or invalid Authorization header''\<rparr>,
              w)
       \<and> handleDataPayload_part0 e r newResponseWriter w
           = (Return (),
              \<lparr>wroteHeader = Some 403, written = ''missing or invalid Authorization header''\<rparr>,
              w)
       \<and> handleDataPayload_main (e\<lparr>jsonUnmarshal := u\<rparr>) (r\<lparr>Body := b\<rparr>) newResponseWriter w
           = handleDataPayload_main e r newResponseWriter w
       \<and> handleDataPayload_part0 (e\<lparr>jsonUnmarshal := u\<rparr>) (r\<lparr>Body := b\<rparr>) newResponseWriter w
           = handleDataPayload_part0 e r newResponseWriter w"
  using assms
  by (simp add: handleDataPayload_main_def handleDataPayload_part0_def handleDataPayload_def
        HeaderGet_def WriteHeader_def Write_def newResponseWriter_def)

theorem C9_unauthorized_post_is_rejected_witness:
  "Method \<lparr>Method = ''POST'', Header = [''Authorization'' \<mapsto> ''guess''],
           Body = Inr ''metrics''\<rparr> = ''POST''
   \<and> HeaderGet \<lparr>Method = ''POST'', Header = [''Authorization'' \<mapsto> ''guess''],
                Body = Inr ''metrics''\<rparr> ''Authorization'' \<noteq> authenticationToken exampleEnv
   \<and> handleDataPayload_main exampleEnv
        \<lparr>Method = ''POST'', Header = [''Authorization'' \<mapsto> ''guess''], Body = Inr ''metrics''\<rparr>
        newResponseWriter emptyWorld
      = (Return (),
         \<lparr>wroteHeader = Some 403, written = ''missing or invalid Authorization header''\<rparr>,
         emptyWorld)
   \<and> handleDataPayload_part0 exampleEnv
        \<lparr>Method = ''POST'', Header = [''Authorization'' \<mapsto> ''guess''], Body = Inr ''metrics''\<rparr>
        newResponseWriter emptyWorld
      = (Return (),
         \<lparr>wroteHeader = Some 403, written = ''missing or invalid Authorization header''\<rparr>,
         emptyWorld)"
proof -
  have h1: "Method \<lparr>Method = ''POST'', Header = [''Authorization'' \<mapsto> ''guess''],
           Body = Inr ''metrics''\<rparr> = ''POST''" by simp
  have h2: "HeaderGet \<lparr>Method = ''POST'', Header = [''Authorization'' \<mapsto> ''guess''],
                Body = Inr ''metrics''\<rparr> ''Authorization'' \<noteq> authenticationToken exampleEnv"
    by (simp add: HeaderGet_def exampleEnv_def)
  from C9_unauthorized_post_is_rejected [OF h1 h2, of emptyWorld] h1 h2
  show ?thesis by blast
qed

text \<open>
  The claim as stated, for every request, fails in two places. A request with another
  method is answered 405 with no body before the header is looked at. And when the
  configured secret is the empty string, a POST without the header passes the check: its
  body is read (and here rejected by the decoder, 400).
\<close>

theorem C9_other_method_counterexample:
  "HeaderGet \<lparr>Method = ''GET'', Header = [''Authorization'' \<mapsto> ''guess''], Body = Inr []\<rparr>
     ''Authorization'' \<noteq> authenticationToken exampleEnv
   \<and> handleDataPayload_main exampleEnv
        \<lparr>Method = ''GET'', Header = [''Authorization'' \<mapsto> ''guess''], Body = Inr []\<rparr>
        newResponseWriter emptyWorld
      = (Return (), \<lparr>wroteHeader = Some 405, written = []\<rparr>, emptyWorld)
   \<and> handleDataPayload_part0 exampleEnv
        \<lparr>Method = ''GET'', Header = [''Authorization'' \<mapsto> ''guess''], Body = Inr []\<rparr>
        newResponseWriter emptyWorld
      = (Return (), \<lparr>wroteHeader = Some 405, written = []\<rparr>, emptyWorld)
   \<and> Header \<lparr>Method = ''POST'', Header = Map.empty, Body = Inr ''{''\<rparr> ''Authorization'' = None
   \<and> handleDataPayload_main (exampleEnv\<lparr>authenticationToken := []\<rparr>)
        \<lparr>Method = ''POST'', Header = Map.empty, Body = Inr ''{''\<rparr>
        newResponseWriter emptyWorld
      = (Return (), \<lparr>wroteHeader = Some 400, written = []\<rparr>, emptyWorld\<lparr>bodyRead := True\<rparr>)
   \<and> handleDataPayload_part0 (exampleEnv\<lparr>authenticationToken := []\<rparr>)
        \<lparr>Method = ''POST'', Header = Map.empty, Body = Inr ''{''\<rparr>
        newResponseWriter emptyWorld
      = (Return (), \<lparr>wroteHeader = Some 400, written = []\<rparr>, emptyWorld\<lparr>bodyRead := True\<rparr>)"
  by (simp add: handleDataPayload_main_def handleDataPayload_part0_def handleDataPayload_def
        HeaderGet_def WriteHeader_def newResponseWriter_def exampleEnv_def)

subsection \<open>Startup\<close>

lemma flagString_missing: "f \<in> {None, Some []} \<Longrightarrow> flagString f [] = []"
  by (auto simp: flagString_def)

lemma flagString_default: "flagString None d = d"
  by (simp add: flagString_def)

lemma main_refuses:
  assumes "flagString (flag_influxdb_token fl) [] = [] \<or> flagString (flag_influxdb_org fl) [] = []"
  shows "refusesToStart (main_main fl)" and "refusesToStart (main_part0 fl)"
  using assms by (auto simp: main_main_def main_part0_def Let_def refusesToStart_def)

lemma main_main_serves:
  assumes "main_main fl = ListenAndServe srv"
  shows "srv = \<lparr>clientServerURL = ''http://'' @ flagString (flag_influxdb_host fl) ''localhost:8086'',
                clientAuthToken = flagString (flag_influxdb_token fl) [],
                writeOrg = flagString (flag_influxdb_org fl) [],
                writeBucket = flagString (flag_influxdb_bucket fl) [],
                listenAddr = flagString (flag_listen fl) ''0.0.0.0:8082'',
                sharedSecret = flagString (flag_auth_token fl) ''supersecret''\<rparr>"
  using assms by (simp add: main_main_def Let_def split: if_splits)

lemma main_part0_serves:
  assumes "main_part0 fl = ListenAndServe srv"
  shows "srv = \<lparr>clientServerURL = flagString (flag_influxdb_host fl) ''localhost:8086'',
                clientAuthToken = flagString (flag_influxdb_token fl) [],
                writeOrg = flagString (flag_influxdb_org fl) [],
                writeBucket = flagString (flag_influxdb_bucket fl) [],
                listenAddr = flagString (flag_listen fl) ''0.0.0.0:8082'',
                sharedSecret = flagString (flag_auth_token fl) ''supersecret''\<rparr>"
  using assms by (simp add: main_part0_def Let_def split: if_splits)

lemma main_exampleFlags:
  "main_main exampleFlags
     = ListenAndServe
         \<lparr>clientServerURL = ''http://localhost:8086'', clientAuthToken = ''t0ken'',
          writeOrg = ''home'', writeBucket = ''health'', listenAddr = ''0.0.0.0:8082'',
          sharedSecret = ''supersecret''\<rparr>"
  "main_part0 exampleFlags
     = ListenAndServe
         \<lparr>clientServerURL = ''localhost:8086'', clientAuthToken = ''t0ken'',
          writeOrg = ''home'', writeBucket = ''health'', listenAddr = ''0.0.0.0:8082'',
          sharedSecret = ''supersecret''\<rparr>"
  by (simp_all add: main_main_def main_part0_def exampleFlags_def flagString_def)

text \<open>
  Claim C10, as amended. At startup the program refuses to start (\<^verbatim>\<open>log.Fatal\<close>) when
  the time-series auth token or the organization is not supplied or is empty. When it
  starts, the listen address, the time-series host and the shared-secret token take their
  defaults where they are not supplied: \<open>0.0.0.0:8082\<close>, \<open>localhost:8086\<close> (behind
  \<open>http://\<close> in \<^verbatim>\<open>src/main.go\<close>) and \<open>supersecret\<close>.
\<close>

theorem C10_startup_checks_and_defaults:
  "(flag_influxdb_token fl \<in> {None, Some []} \<or> flag_influxdb_org fl \<in> {None, Some []}
      \<longrightarrow> refusesToStart (main_main fl) \<and> refusesToStart (main_part0 fl))
   \<and> (\<forall>srv. main_main fl = ListenAndServe srv \<longrightarrow>
         (flag_listen fl = None \<longrightarrow> listenAddr srv = ''0.0.0.0:8082'')
         \<and> (flag_influxdb_host fl = None \<longrightarrow> clientServerURL srv = ''http://localhost:8086'')
         \<and> (flag_auth_token fl = None \<longrightarrow> sharedSecret srv = ''supersecret''))
   \<and> (\<forall>srv. main_part0 fl = ListenAndServe srv \<longrightarrow>
         (flag_listen fl = None \<longrightarrow> listenAddr srv = ''0.0.0.0:8082'')
         \<and> (flag_influxdb_host fl = None \<longrightarrow> clientServerURL srv = ''localhost:8086'')
         \<and> (flag_auth_token fl = None \<longrightarrow> sharedSecret srv = ''supersecret''))"
proof (intro conjI allI impI)
  assume "flag_influxdb_token fl \<in> {None, Some []} \<or> flag_influxdb_org fl \<in> {None, Some []}"
  then have "flagString (flag_influxdb_token fl) [] = [] \<or> flagString (flag_influxdb_org fl) [] = []"
    using flagString_missing by blast
  then show "refusesToStart (main_main fl)" and "refusesToStart (main_part0 fl)"
    by (rule main_refuses)+
next
  fix srv assume s: "main_main fl = ListenAndServe srv"
  note eq = main_main_serves [OF s]
  show "listenAddr srv = ''0.0.0.0:8082''" if "flag_listen fl = None"
    using that by (subst eq) (simp add: flagString_default)
  show "clientServerURL srv = ''http://localhost:8086''" if "flag_influxdb_host fl = None"
    using that by (subst eq) (simp add: flagString_default)
  show "sharedSecret srv = ''supersecret''" if "flag_auth_token fl = None"
    using that by (subst eq) (simp add: flagString_default)
next
  fix srv assume s: "main_part0 fl = ListenAndServe srv"
  note eq = main_part0_serves [OF s]
  show "listenAddr srv = ''0.0.0.0:8082''" if "flag_listen fl = None"
    using that by (subst eq) (simp add: flagString_default)
  show "clientServerURL srv = ''localhost:8086''" if "flag_influxdb_host fl = None"
    using that by (subst eq) (simp add: flagString_default)
  show "sharedSecret srv = ''supersecret''" if "flag_auth_token fl = None"
    using that by (subst eq) (simp add: flagString_default)
qed

theorem C10_startup_checks_and_defaults_witness:
  "flag_influxdb_token (exampleFlags\<lparr>flag_influxdb_token := None\<rparr>) \<in> {None, Some []}
   \<and> refusesToStart (main_main (exampleFlags\<lparr>flag_influxdb_token := None\<rparr>))
   \<and> refusesToStart (main_part0 (exampleFlags\<lparr>flag_influxdb_token := None\<rparr>))
   \<and> flag_influxdb_org (exampleFlags\<lparr>flag_influxdb_org := None\<rparr>) \<in> {None, Some []}
   \<and> refusesToStart (main_main (exampleFlags\<lparr>flag_influxdb_org := None\<rparr>))
   \<and> refusesToStart (main_part0 (exampleFlags\<lparr>flag_influxdb_org := None\<rparr>))
   \<and> flag_listen exampleFlags = None \<and> flag_influxdb_host exampleFlags = None
   \<and> flag_auth_token exampleFlags = None
   \<and> (\<exists>srv. main_main exampleFlags = ListenAndServe srv
          \<and> listenAddr srv = ''0.0.0.0:8082'' \<and> clientServerURL srv = ''http://localhost:8086''
          \<and> sharedSecret srv = ''supersecret'')
   \<and> (\<exists>srv. main_part0 exampleFlags = ListenAndServe srv
          \<and> listenAddr srv = ''0.0.0.0:8082'' \<and> clientServerURL srv = ''localhost:8086''
          \<and> sharedSecret srv = ''supersecret'')"
proof -
  have t: "flag_influxdb_token (exampleFlags\<lparr>flag_influxdb_token := None\<rparr>) \<in> {None, Some []}"
    and or: "flag_influxdb_org (exampleFlags\<lparr>flag_influxdb_org := None\<rparr>) \<in> {None, Some []}"
    and f: "flag_listen exampleFlags = None" "flag_influxdb_host exampleFlags = None"
      "flag_auth_token exampleFlags = None"
    by (simp_all add: exampleFlags_def)
  from C10_startup_checks_and_defaults [of "exampleFlags\<lparr>flag_influxdb_token := None\<rparr>"] t
  have r1: "refusesToStart (main_main (exampleFlags\<lparr>flag_influxdb_token := None\<rparr>))"
    "refusesToStart (main_part0 (exampleFlags\<lparr>flag_influxdb_token := None\<rparr>))"
    by blast+
  from C10_startup_checks_and_defaults [of "exampleFlags\<lparr>flag_influxdb_org := None\<rparr>"] or
  have r2: "refusesToStart (main_main (exampleFlags\<lparr>flag_influxdb_org := None\<rparr>))"
    "refusesToStart (main_part0 (exampleFlags\<lparr>flag_influxdb_org := None\<rparr>))"
    by blast+
  obtain srv1 where s1: "main_main exampleFlags = ListenAndServe srv1"
    using main_exampleFlags(1) by blast
  obtain srv2 where s2: "main_part0 exampleFlags = ListenAndServe srv2"
    using main_exampleFlags(2) by blast
  from C10_startup_checks_and_defaults [of exampleFlags] s1 f
  have r3: "listenAddr srv1 = ''0.0.0.0:8082'' \<and> clientServerURL srv1 = ''http://localhost:8086''
          \<and> sharedSecret srv1 = ''supersecret''"
    by blast
  from C10_startup_checks_and_defaults [of exampleFlags] s2 f
  have r4: "listenAddr srv2 = ''0.0.0.0:8082'' \<and> clientServerURL srv2 = ''localhost:8086''
          \<and> sharedSecret srv2 = ''supersecret''"
    by blast
  from s1 r3 have e1: "\<exists>srv. main_main exampleFlags = ListenAndServe srv
          \<and> listenAddr srv = ''0.0.0.0:8082'' \<and> clientServerURL srv = ''http://localhost:8086''
          \<and> sharedSecret srv = ''supersecret''" by blast
  from s2 r4 have e2: "\<exists>srv. main_part0 exampleFlags = ListenAndServe srv
          \<and> listenAddr srv = ''0.0.0.0:8082'' \<and> clientServerURL srv = ''localhost:8086''
          \<and> sharedSecret srv = ''supersecret''" by blast
  show ?thesis
    by (intro conjI t or f r1 r2 e1 e2)
qed

text \<open>
  The claim as stated fails: with no shared-secret token on the command line the program
  does not refuse to start, it serves with the secret \<open>supersecret\<close>.
\<close>

theorem C10_missing_auth_token_counterexample:
  "flag_auth_token exampleFlags = None
   \<and> \<not> refusesToStart (main_main exampleFlags)
   \<and> \<not> refusesToStart (main_part0 exampleFlags)
   \<and> main_main exampleFlags
       = ListenAndServe
           \<lparr>clientServerURL = ''http://localhost:8086'', clientAuthToken = ''t0ken'',
            writeOrg = ''home'', writeBucket = ''health'', listenAddr = ''0.0.0.0:8082'',
            sharedSecret = ''supersecret''\<rparr>
   \<and> main_part0 exampleFlags
       = ListenAndServe
           \<lparr>clientServerURL = ''localhost:8086'', clientAuthToken = ''t0ken'',
            writeOrg = ''home'', writeBucket = ''health'', listenAddr = ''0.0.0.0:8082'',
            sharedSecret = ''supersecret''\<rparr>"
proof -
  have "flag_auth_token exampleFlags = None"
    by (simp add: exampleFlags_def)
  then show ?thesis
    by (simp add: main_exampleFlags refusesToStart_def)
qed

end
